theory Spec2Isabelle
  imports Complex_Main
begin

section \<open>Data quality tests of evidently.v2 (data_quality_tests.py)\<close>

text \<open>
  A shallow embedding of the test classes of
  \<^verbatim>\<open>evidently/v2/tests/data_quality_tests.py\<close>. Python numbers are modelled as
  \<open>real\<close> (infinities and NaN are not modelled; comparisons are exact, as they are on
  floats; the arithmetic of the window of TestMeanInNSigmas goes through the float
  operations of \<open>helpers\<close>, the division of a percentage by 100.0 is exact), an
  attribute that may be \<^verbatim>\<open>None\<close> as an \<open>option\<close>, a raised
  exception as the left summand of \<open>error + 'a\<close>. An instance of a class is a value of a
  datatype whose constructor takes the attributes of the instance; a method is a function
  of the instance, and the equations bind the attributes by their names in the source.
  A local variable of the source whose name is also the name of an attribute of a result
  is renamed.
\<close>

subsection \<open>Exceptions\<close>

datatype error = ValueError string | KeyError string | TypeError

subsection \<open>Results\<close>

datatype status = SUCCESS | FAIL | ERROR | SKIPPED

record TestResult =
  name :: string
  description :: string
  status :: status

text \<open>
  Modelled from the spec: the marking methods of \<^verbatim>\<open>TestResult\<close>
  (evidently.v2.tests.base_test, not under src/). A Result carries a name, a description
  and one of the four statuses; \<^verbatim>\<open>mark_as_fail()\<close>, \<^verbatim>\<open>mark_as_success()\<close>
  and \<^verbatim>\<open>mark_as_error(description)\<close> advance the status to FAIL, SUCCESS and
  ERROR, the last one also replacing the description.
\<close>

definition mark_as_fail :: "TestResult \<Rightarrow> TestResult" where
  "mark_as_fail result = result\<lparr>status := FAIL\<rparr>"

definition mark_as_success :: "TestResult \<Rightarrow> TestResult" where
  "mark_as_success result = result\<lparr>status := SUCCESS\<rparr>"

definition mark_as_error :: "string \<Rightarrow> TestResult \<Rightarrow> TestResult" where
  "mark_as_error d result = result\<lparr>status := ERROR, description := d\<rparr>"

subsection \<open>Conditions\<close>

text \<open>
  Modelled from the spec: \<^verbatim>\<open>TestValueCondition\<close> and \<^verbatim>\<open>approx\<close>
  (evidently.v2.tests.base_test and evidently.v2.tests.utils, not under src/). A
  Condition has the optional fields eq, not_eq, each a number or a tolerant value, the
  optional ordering bounds gt, gte, lt, lte (numbers: the spec gives no ordering against
  a tolerant value, and the tests of this module put none there), and is_in, not_in,
  each a list of scalars. A tolerant value wraps a target number with an optional
  relative and an optional absolute tolerance. Python's bool is a Number (True is 1,
  False is 0), so a boolean scalar is the Number 1 or 0.
\<close>

datatype scalar = Number real | Str string

record ApproxValue =
  target :: real
  relative :: "real option"
  absolute :: "real option"

datatype bound = Exact real | Approx ApproxValue

definition approx :: "real \<Rightarrow> real option \<Rightarrow> real option \<Rightarrow> bound" where
  "approx v rel ab = Approx \<lparr>target = v, relative = rel, absolute = ab\<rparr>"

record TestValueCondition =
  eq :: "bound option"
  gt :: "real option"
  gte :: "real option"
  is_in :: "scalar list option"
  lt :: "real option"
  lte :: "real option"
  not_eq :: "bound option"
  not_in :: "scalar list option"

text \<open>\<^verbatim>\<open>TestValueCondition()\<close>: every keyword argument left at its default None.\<close>

definition unset :: TestValueCondition where
  "unset = \<lparr>eq = None, gt = None, gte = None, is_in = None,
            lt = None, lte = None, not_eq = None, not_in = None\<rparr>"

text \<open>
  Modelled from the spec: a Condition with no field set is "unset";
  \<^verbatim>\<open>is_set()\<close> reports this.
\<close>

definition is_set :: "TestValueCondition \<Rightarrow> bool" where
  "is_set c = (eq c \<noteq> None \<or> gt c \<noteq> None \<or> gte c \<noteq> None \<or> is_in c \<noteq> None \<or>
               lt c \<noteq> None \<or> lte c \<noteq> None \<or> not_eq c \<noteq> None \<or> not_in c \<noteq> None)"

subsection \<open>Metric results\<close>

text \<open>
  Modelled from the spec: the Metric results (evidently.v2.metrics, not under src/). A
  result is an immutable snapshot: keyed per-feature statistics for the current data,
  optional mirrored statistics for the reference data, and scalar aggregates. Only the
  attributes the tests read are modelled; a statistic may be None (the tests compare the
  value under test with None). The attributes \<^verbatim>\<open>min\<close> and \<^verbatim>\<open>max\<close> are
  named \<open>min_value\<close> and \<open>max_value\<close>.
\<close>

record FeatureQualityStats =
  min_value :: "real option"
  max_value :: "real option"
  mean :: "real option"
  percentile_50 :: "real option"
  std :: "real option"
  unique_count :: "real option"
  unique_percentage :: "real option"
  most_common_value_percentage :: "real option"

datatype DataQualityStats =
  DataQualityStats (get_all_features: "string \<rightharpoonup> FeatureQualityStats")

text \<open>\<^verbatim>\<open>d[key]\<close> on a dict: KeyError on a missing key.\<close>

definition getitem :: "(string \<rightharpoonup> 'v) \<Rightarrow> string \<Rightarrow> error + 'v" where
  "getitem d k = (case d k of None \<Rightarrow> Inl (KeyError k) | Some v \<Rightarrow> Inr v)"

text \<open>
  Modelled from the spec: \<^verbatim>\<open>stats[key]\<close> on the keyed per-feature statistics
  (\<^verbatim>\<open>DataQualityStats.__getitem__\<close>, not under src/): the statistics of the
  feature, KeyError for a feature that is not there.
\<close>

definition stats_getitem :: "DataQualityStats \<Rightarrow> string \<Rightarrow> error + FeatureQualityStats" where
  "stats_getitem s k = getitem (get_all_features s) k"

record DataQualityMetricsResults =
  features_stats :: DataQualityStats
  reference_features_stats :: "DataQualityStats option"

record DataQualityStabilityMetricsResults =
  number_not_stable_target :: "int option"
  number_not_stable_prediction :: "int option"

record DataQualityCorrelationMetricsResults =
  target_prediction_correlation :: "real option"
  abs_max_num_features_correlation :: "real option"

record DataQualityValueRangeMetricsResults =
  number_not_in_range :: int
  share_not_in_range :: real

record DataQualityValueListMetricsResults =
  number_not_in_list :: int
  share_not_in_list :: real

text \<open>
  Modelled from the spec: a Metric instance (evidently.v2.metrics, not under src/), the
  parameters it was constructed with and the result that \<^verbatim>\<open>get_result()\<close>
  returns (computed once, cached, never mutated afterwards).
\<close>

datatype ('p, 'r) Metric = Metric (params: 'p) (get_result: 'r)

type_synonym DataQualityMetrics = "(unit, DataQualityMetricsResults) Metric"

type_synonym DataQualityStabilityMetrics = "(unit, DataQualityStabilityMetricsResults) Metric"

text \<open>\<^verbatim>\<open>DataQualityCorrelationMetrics(method=...)\<close>\<close>

type_synonym DataQualityCorrelationMetrics = "(string, DataQualityCorrelationMetricsResults) Metric"

text \<open>\<^verbatim>\<open>DataQualityValueRangeMetrics(column=..., left=..., right=...)\<close>\<close>

type_synonym DataQualityValueRangeMetrics =
  "(string \<times> real option \<times> real option, DataQualityValueRangeMetricsResults) Metric"

text \<open>\<^verbatim>\<open>DataQualityValueListMetrics(column=..., values=...)\<close>\<close>

type_synonym DataQualityValueListMetrics =
  "(string \<times> scalar list option, DataQualityValueListMetricsResults) Metric"

subsection \<open>What the tests call outside this module\<close>

text \<open>
  The evaluation of a Condition (\<^verbatim>\<open>TestValueCondition.check_value\<close>), its
  rendering in an f-string, the rendering of numbers in f-strings,
  \<^verbatim>\<open>numpy.round\<close> and the float operations \<^verbatim>\<open>+\<close>, \<^verbatim>\<open>-\<close>,
  \<^verbatim>\<open>*\<close> of the window of TestMeanInNSigmas (each gives the float that Python
  computes, which need not be the exact sum, difference or product) are parameters of the
  model: the tests are verified for every behaviour of these.
\<close>

record helpers =
  check_value :: "TestValueCondition \<Rightarrow> real \<Rightarrow> error + bool"
  str_condition :: "TestValueCondition \<Rightarrow> string"
  str_number :: "real \<Rightarrow> string"
  str_int :: "int \<Rightarrow> string"
  np_round :: "real \<Rightarrow> nat \<Rightarrow> real"
  float_add :: "real \<Rightarrow> real \<Rightarrow> real"
  float_sub :: "real \<Rightarrow> real \<Rightarrow> real"
  float_mul :: "real \<Rightarrow> real \<Rightarrow> real"

text \<open>
  The float operations of CPython on IEEE 754 binary64 numbers: the exact result,
  rounded to the nearest number with a significand of 53 bits, a tie going to the even
  significand. \<open>pow2 e\<close> is the power of two with the exponent \<open>e\<close>; the unit in
  the last place of a number x with \<open>pow2 e \<le> \<bar>x\<bar> < pow2 (e + 1)\<close> is
  \<open>pow2 (e - 52)\<close>. Overflow and subnormal numbers are left out.
\<close>

definition pow2 :: "int \<Rightarrow> real" where
  "pow2 e = (if e \<ge> 0 then 2 ^ nat e else 1 / 2 ^ nat (- e))"

definition round_half_even :: "real \<Rightarrow> int" where
  "round_half_even x =
     (let f = \<lfloor>x\<rfloor> in
        if x - of_int f < 1 / 2 then f
        else if x - of_int f > 1 / 2 then f + 1
        else if even f then f else f + 1)"

definition round_double :: "real \<Rightarrow> real" where
  "round_double x =
     (if x = 0 then 0
      else (let ulp = pow2 (\<lfloor>log 2 \<bar>x\<bar>\<rfloor> - 52)
            in of_int (round_half_even (x / ulp)) * ulp))"

definition double_add :: "real \<Rightarrow> real \<Rightarrow> real" where
  "double_add x y = round_double (x + y)"

definition double_sub :: "real \<Rightarrow> real \<Rightarrow> real" where
  "double_sub x y = round_double (x - y)"

definition double_mul :: "real \<Rightarrow> real \<Rightarrow> real" where
  "double_mul x y = round_double (x * y)"

text \<open>A name between single quotes, as the f-strings write \<^verbatim>\<open>'{self.column_name}'\<close>.\<close>

definition quoted :: "string \<Rightarrow> string" where
  "quoted s = CHR 0x27 # s @ [CHR 0x27]"

text \<open>
  The indentation that a backslash-newline inside an f-string literal leaves in the
  string.
\<close>

definition spaces :: "nat \<Rightarrow> string" where
  "spaces n = replicate n (CHR '' '')"

text \<open>\<^verbatim>\<open>str(x)\<close> of an optional number in an f-string.\<close>

definition str_optional :: "helpers \<Rightarrow> real option \<Rightarrow> string" where
  "str_optional h x = (case x of None \<Rightarrow> ''None'' | Some v \<Rightarrow> str_number h v)"

text \<open>\<^verbatim>\<open>x / 100.0\<close>, a TypeError when x is None.\<close>

definition div_100 :: "real option \<Rightarrow> error + real" where
  "div_100 x = (case x of None \<Rightarrow> Inl TypeError | Some p \<Rightarrow> Inr (p / 100))"

subsection \<open>Feature-level tests (BaseFeatureDataQualityMetricsTest and its subclasses)\<close>

datatype feature_cls =
    TestFeatureValueMin
  | TestFeatureValueMax
  | TestFeatureValueMean
  | TestFeatureValueMedian
  | TestFeatureValueStd
  | TestNumberOfUniqueValues
  | TestUniqueValuesShare
  | TestMostCommonValueShare

text \<open>
  An instance: its class and the attributes \<^verbatim>\<open>column_name\<close>,
  \<^verbatim>\<open>condition\<close> and \<^verbatim>\<open>metric\<close>, in this order.
\<close>

datatype FeatureTest = FeatureTest feature_cls string TestValueCondition DataQualityMetrics

fun feature_name :: "feature_cls \<Rightarrow> string" where
  "feature_name TestFeatureValueMin = ''Test a feature min value''"
| "feature_name TestFeatureValueMax = ''Test a feature max value''"
| "feature_name TestFeatureValueMean = ''Test a feature mean value''"
| "feature_name TestFeatureValueMedian = ''Test a feature median value''"
| "feature_name TestFeatureValueStd = ''Test a feature std value''"
| "feature_name TestNumberOfUniqueValues = ''Test a feature for number of unique values''"
| "feature_name TestUniqueValuesShare = ''Test a feature for share of unique values''"
| "feature_name TestMostCommonValueShare = ''Test Share of the Most Common Value''"

fun feature_calculate_value_for_test :: "FeatureTest \<Rightarrow> error + real option" where
  "feature_calculate_value_for_test (FeatureTest cls column_name condition metric) =
     (case getitem (get_all_features (features_stats (get_result metric))) column_name of
        Inl e \<Rightarrow> Inl e
      | Inr s \<Rightarrow>
          (case cls of
             TestFeatureValueMin \<Rightarrow> Inr (min_value s)
           | TestFeatureValueMax \<Rightarrow> Inr (max_value s)
           | TestFeatureValueMean \<Rightarrow> Inr (mean s)
           | TestFeatureValueMedian \<Rightarrow> Inr (percentile_50 s)
           | TestFeatureValueStd \<Rightarrow> Inr (std s)
           | TestNumberOfUniqueValues \<Rightarrow> Inr (unique_count s)
           | TestUniqueValuesShare \<Rightarrow> map_sum id Some (div_100 (unique_percentage s))
           | TestMostCommonValueShare \<Rightarrow>
               map_sum id Some (div_100 (most_common_value_percentage s))))"

text \<open>
  \<^verbatim>\<open>get_condition\<close>: TestMostCommonValueShare overrides it; the other classes
  inherit it from BaseCheckValueTest (modelled from the spec: the explicit Condition the
  caller configured).
\<close>

fun feature_get_condition :: "FeatureTest \<Rightarrow> error + TestValueCondition" where
  "feature_get_condition (FeatureTest cls column_name condition metric) =
     (if cls = TestMostCommonValueShare then
        if is_set condition then Inr condition
        else
          (case reference_features_stats (get_result metric) of
             Some reference \<Rightarrow>
               (case stats_getitem reference column_name of
                  Inl e \<Rightarrow> Inl e
                | Inr s \<Rightarrow>
                    (case div_100 (most_common_value_percentage s) of
                       Inl e \<Rightarrow> Inl e
                     | Inr share \<Rightarrow> Inr (unset\<lparr>eq := Some (approx share (Some 0.1) None)\<rparr>)))
           | None \<Rightarrow> Inr (unset\<lparr>lt := Some 0.8\<rparr>))
      else Inr condition)"

fun feature_get_description :: "helpers \<Rightarrow> FeatureTest \<Rightarrow> real \<Rightarrow> error + string" where
  "feature_get_description h (FeatureTest cls column_name condition metric) value =
     (case cls of
        TestFeatureValueMin \<Rightarrow>
          Inr (''Min value for feature '' @ quoted column_name @ '' is '' @ str_number h value)
      | TestFeatureValueMax \<Rightarrow>
          Inr (''Max value for feature '' @ quoted column_name @ '' is '' @ str_number h value)
      | TestFeatureValueMean \<Rightarrow>
          Inr (''Mean value for feature '' @ quoted column_name @ '' is '' @ str_number h value)
      | TestFeatureValueMedian \<Rightarrow>
          Inr (''Median (50 percentile) value for feature '' @ quoted column_name @ '' is ''
               @ str_number h value)
      | TestFeatureValueStd \<Rightarrow>
          Inr (''Std value for feature '' @ quoted column_name @ '' is '' @ str_number h value)
      | TestNumberOfUniqueValues \<Rightarrow>
          Inr (''Number of unique values for feature '' @ quoted column_name @ '' is ''
               @ str_number h value)
      | TestUniqueValuesShare \<Rightarrow>
          Inr (''Share of unique values for feature '' @ quoted column_name @ '' is ''
               @ str_number h value)
      | TestMostCommonValueShare \<Rightarrow>
          (case feature_get_condition (FeatureTest cls column_name condition metric) of
             Inl e \<Rightarrow> Inl e
           | Inr c \<Rightarrow>
               Inr (''Share of the Most Common Value for column '' @ column_name @ '' is ''
                    @ str_number h (np_round h value 3)
                    @ ''. '' @ spaces 12 @ ''Test Threshold is ['' @ str_condition h c
                    @ ''].'')))"

text \<open>
  The \<^verbatim>\<open>try ... except ValueError\<close> of \<^verbatim>\<open>check\<close>: a ValueError raised
  while the condition is resolved or evaluated marks the result as an error; any other
  exception leaves \<^verbatim>\<open>check\<close>.
\<close>

definition evaluate_condition ::
  "helpers \<Rightarrow> error + TestValueCondition \<Rightarrow> real \<Rightarrow> TestResult \<Rightarrow> error + TestResult" where
  "evaluate_condition h get_condition value result =
     (case (case get_condition of Inl e \<Rightarrow> Inl e | Inr c \<Rightarrow> check_value h c value) of
        Inl (ValueError m) \<Rightarrow> Inr (mark_as_error ''Cannot calculate the condition'' result)
      | Inl e \<Rightarrow> Inl e
      | Inr condition_check_result \<Rightarrow>
          Inr (if condition_check_result then mark_as_success result
               else mark_as_fail result))"

fun feature_check :: "helpers \<Rightarrow> FeatureTest \<Rightarrow> error + TestResult" where
  "feature_check h (FeatureTest cls column_name condition metric) =
     (let self = FeatureTest cls column_name condition metric;
          result = \<lparr>name = feature_name cls, description = ''The test was not launched'',
                    status = SKIPPED\<rparr>;
          all_features = get_all_features (features_stats (get_result metric))
      in
        if all_features column_name = None then
          Inr ((mark_as_fail result)
                 \<lparr>description := ''Feature '' @ quoted column_name @ '' was not found''\<rparr>)
        else
          (case feature_calculate_value_for_test self of
             Inl e \<Rightarrow> Inl e
           | Inr None \<Rightarrow>
               Inr (mark_as_error (''No value for the feature '' @ quoted column_name) result)
           | Inr (Some value) \<Rightarrow>
               (case feature_get_description h self value of
                  Inl e \<Rightarrow> Inl e
                | Inr d \<Rightarrow>
                    evaluate_condition h (feature_get_condition self) value
                      (result\<lparr>description := d\<rparr>))))"

subsection \<open>TestMeanInNSigmas\<close>

text \<open>
  An instance: the attributes \<^verbatim>\<open>column_name\<close>, \<^verbatim>\<open>n_sigmas\<close> and
  \<^verbatim>\<open>metric\<close>, in this order.
\<close>

datatype TestMeanInNSigmas = TestMeanInNSigmas string int DataQualityMetrics

definition mean_in_n_sigmas_name :: string where
  "mean_in_n_sigmas_name = ''Test Mean Value Stability''"

text \<open>
  \<^verbatim>\<open>__init__(self, column_name, n_sigmas=2, metric=None)\<close>: an argument the caller
  leaves out is None here. \<open>default_metric\<close> stands for the freshly constructed
  \<^verbatim>\<open>DataQualityMetrics()\<close>.
\<close>

definition TestMeanInNSigmas_init ::
  "DataQualityMetrics \<Rightarrow> string \<Rightarrow> int option \<Rightarrow> DataQualityMetrics option \<Rightarrow> TestMeanInNSigmas"
  where
  "TestMeanInNSigmas_init default_metric column_name n_sigmas metric =
     TestMeanInNSigmas column_name
       (case n_sigmas of None \<Rightarrow> 2 | Some n \<Rightarrow> n)
       (case metric of Some m \<Rightarrow> m | None \<Rightarrow> default_metric)"

text \<open>
  The description of both outcomes: the words between the rounded current mean and the
  rounded left bound differ.
\<close>

definition mean_in_n_sigmas_description ::
  "helpers \<Rightarrow> string \<Rightarrow> string \<Rightarrow> real \<Rightarrow> real \<Rightarrow> real \<Rightarrow> string" where
  "mean_in_n_sigmas_description h column_name verdict current_mean left_condition
       right_condition =
     ''Mean value of column '' @ column_name @ '' '' @ str_number h (np_round h current_mean 3)
     @ verdict @ str_number h (np_round h left_condition 3) @ '' '' @ spaces 32
     @ ''to '' @ str_number h (np_round h right_condition 3)"

text \<open>
  \<^verbatim>\<open>check\<close>. \<^verbatim>\<open>not reference_feature_stats\<close> holds when the reference
  statistics are None. Arithmetic or comparison on a mean or std that is None raises
  TypeError. The window is computed in float arithmetic:
  \<^verbatim>\<open>reference_std * self.n_sigmas\<close>, then \<^verbatim>\<open>reference_mean - sigmas_value\<close>
  and \<^verbatim>\<open>reference_mean + sigmas_value\<close>; the comparisons with the current mean
  are exact. \<^verbatim>\<open>n_sigmas\<close> is an int: the product converts it to a float, which
  is exact for an n below 2^53 in absolute value.
\<close>

fun mean_in_n_sigmas_check :: "helpers \<Rightarrow> TestMeanInNSigmas \<Rightarrow> error + TestResult" where
  "mean_in_n_sigmas_check h (TestMeanInNSigmas column_name n_sigmas metric) =
     (let reference_feature_stats = reference_features_stats (get_result metric);
          current_feature_stats = features_stats (get_result metric)
      in
        (case reference_feature_stats of
           None \<Rightarrow> Inl (ValueError ''Reference should be present'')
         | Some reference \<Rightarrow>
             if get_all_features current_feature_stats column_name = None then
               Inr \<lparr>name = mean_in_n_sigmas_name,
                    description = ''Column '' @ column_name @ '' should be in current data'',
                    status = ERROR\<rparr>
             else if get_all_features reference column_name = None then
               Inr \<lparr>name = mean_in_n_sigmas_name,
                    description = ''Column '' @ column_name @ '' should be in reference data'',
                    status = ERROR\<rparr>
             else
               (case stats_getitem current_feature_stats column_name of
                  Inl e \<Rightarrow> Inl e
                | Inr current \<Rightarrow>
                    (case stats_getitem reference column_name of
                       Inl e \<Rightarrow> Inl e
                     | Inr ref \<Rightarrow>
                         (case (mean current, mean ref, std ref) of
                            (Some current_mean, Some reference_mean, Some reference_std) \<Rightarrow>
                              (let sigmas_value =
                                     float_mul h reference_std (of_int n_sigmas);
                                   left_condition = float_sub h reference_mean sigmas_value;
                                   right_condition = float_add h reference_mean sigmas_value
                               in
                                 if left_condition < current_mean
                                    \<and> current_mean < right_condition
                                 then
                                   Inr \<lparr>name = mean_in_n_sigmas_name,
                                        description =
                                          mean_in_n_sigmas_description h column_name
                                            '' is in range from '' current_mean
                                            left_condition right_condition,
                                        status = SUCCESS\<rparr>
                                 else
                                   Inr \<lparr>name = mean_in_n_sigmas_name,
                                        description =
                                          mean_in_n_sigmas_description h column_name
                                            '' is not in range from '' current_mean
                                            left_condition right_condition,
                                        status = FAIL\<rparr>)
                          | _ \<Rightarrow> Inl TypeError)))))"

subsection \<open>TestConflictTarget and TestConflictPrediction\<close>

datatype TestConflictTarget = TestConflictTarget DataQualityStabilityMetrics

datatype TestConflictPrediction = TestConflictPrediction DataQualityStabilityMetrics

fun conflict_target_check :: "helpers \<Rightarrow> TestConflictTarget \<Rightarrow> TestResult" where
  "conflict_target_check h (TestConflictTarget metric) =
     (let metric_result = get_result metric in
        (case number_not_stable_target metric_result of
           None \<Rightarrow>
             \<lparr>name = ''Test number of conflicts in target'',
              description = ''No target in the dataset'', status = ERROR\<rparr>
         | Some n \<Rightarrow>
             if n > 0 then
               \<lparr>name = ''Test number of conflicts in target'',
                description = ''Not stable target rows count is '' @ str_int h n,
                status = FAIL\<rparr>
             else
               \<lparr>name = ''Test number of conflicts in target'',
                description = ''Target is stable'', status = SUCCESS\<rparr>))"

fun conflict_prediction_check :: "helpers \<Rightarrow> TestConflictPrediction \<Rightarrow> TestResult" where
  "conflict_prediction_check h (TestConflictPrediction metric) =
     (let metric_result = get_result metric in
        (case number_not_stable_prediction metric_result of
           None \<Rightarrow>
             \<lparr>name = ''Test number of conflicts in prediction'',
              description = ''No prediction in the dataset'', status = ERROR\<rparr>
         | Some n \<Rightarrow>
             if n > 0 then
               \<lparr>name = ''Test number of conflicts in prediction'',
                description = ''Not stable prediction rows count is '' @ str_int h n,
                status = FAIL\<rparr>
             else
               \<lparr>name = ''Test number of conflicts in prediction'',
                description = ''Prediction is stable'', status = SUCCESS\<rparr>))"

subsection \<open>TestValueRange and TestValueList\<close>

text \<open>
  A TestValueRange instance: the attributes \<^verbatim>\<open>column_name\<close>, \<^verbatim>\<open>left\<close>,
  \<^verbatim>\<open>right\<close> and \<^verbatim>\<open>metric\<close>, in this order.
\<close>

datatype TestValueRange =
  TestValueRange string "real option" "real option" DataQualityValueRangeMetrics

definition value_range_name :: string where
  "value_range_name = ''Checks that all values of certain column belong to the interval''"

text \<open>
  \<^verbatim>\<open>__init__(self, column_name, left=None, right=None, metric=None)\<close>.
  \<open>new_metric\<close> stands for the constructor
  \<^verbatim>\<open>DataQualityValueRangeMetrics(column=..., left=..., right=...)\<close>, which is not
  under src/ and may raise.
\<close>

definition TestValueRange_init ::
  "(string \<Rightarrow> real option \<Rightarrow> real option \<Rightarrow> error + DataQualityValueRangeMetrics) \<Rightarrow>
   string \<Rightarrow> real option \<Rightarrow> real option \<Rightarrow> DataQualityValueRangeMetrics option \<Rightarrow>
   error + TestValueRange" where
  "TestValueRange_init new_metric column_name left right metric =
     (case metric of
        Some m \<Rightarrow> Inr (TestValueRange column_name left right m)
      | None \<Rightarrow>
          (case new_metric column_name left right of
             Inl e \<Rightarrow> Inl e
           | Inr m \<Rightarrow> Inr (TestValueRange column_name left right m)))"

fun value_range_check :: "helpers \<Rightarrow> TestValueRange \<Rightarrow> TestResult" where
  "value_range_check h (TestValueRange column_name left right metric) =
     (let not_in_range = number_not_in_range (get_result metric) in
        if not_in_range > 0 then
          \<lparr>name = value_range_name,
           description =
             ''Column '' @ column_name @ '' has '' @ str_int h not_in_range
             @ '' values that are '' @ ''not in range from '' @ str_optional h left
             @ '' to '' @ str_optional h right @ ''.'',
           status = FAIL\<rparr>
        else
          \<lparr>name = value_range_name,
           description =
             ''Column '' @ column_name @ '' values are in range from '' @ str_optional h left
             @ '' to '' @ str_optional h right,
           status = SUCCESS\<rparr>)"

text \<open>
  A TestValueList instance: the attributes \<^verbatim>\<open>column_name\<close>, \<^verbatim>\<open>values\<close>
  and \<^verbatim>\<open>metric\<close>, in this order.
\<close>

datatype TestValueList = TestValueList string "scalar list option" DataQualityValueListMetrics

fun value_list_check :: "helpers \<Rightarrow> TestValueList \<Rightarrow> TestResult" where
  "value_list_check h (TestValueList column_name values metric) =
     (let metric_result = get_result metric in
        if number_not_in_list metric_result > 0 then
          \<lparr>name = ''Test checks whether a feature values is in some list of values'',
           description =
             ''Number values not in the values list is ''
             @ str_int h (number_not_in_list metric_result),
           status = FAIL\<rparr>
        else
          \<lparr>name = ''Test checks whether a feature values is in some list of values'',
           description = ''All values is in the values list'',
           status = SUCCESS\<rparr>)"

subsection \<open>Every test whose check() is defined in this module\<close>

datatype Test =
    Feature FeatureTest
  | MeanInNSigmas TestMeanInNSigmas
  | ConflictTarget TestConflictTarget
  | ConflictPrediction TestConflictPrediction
  | ValueRange TestValueRange
  | ValueList TestValueList

text \<open>\<^verbatim>\<open>test.check()\<close>, dispatched on the class of the instance.\<close>

fun check :: "helpers \<Rightarrow> Test \<Rightarrow> error + TestResult" where
  "check h (Feature t) = feature_check h t"
| "check h (MeanInNSigmas t) = mean_in_n_sigmas_check h t"
| "check h (ConflictTarget t) = Inr (conflict_target_check h t)"
| "check h (ConflictPrediction t) = Inr (conflict_prediction_check h t)"
| "check h (ValueRange t) = Inr (value_range_check h t)"
| "check h (ValueList t) = Inr (value_list_check h t)"

subsection \<open>Correlation tests (BaseDataQualityCorrelationsMetricsValueTest)\<close>

datatype correlation_cls =
    TestTargetPredictionCorrelation
  | HighlyCorrelatedFeatures
  | CorrelationChanges

text \<open>
  An instance: its class and the attributes \<^verbatim>\<open>method\<close>, \<^verbatim>\<open>condition\<close> and
  \<^verbatim>\<open>metric\<close>, in this order.
\<close>

datatype CorrelationTest =
  CorrelationTest correlation_cls string TestValueCondition DataQualityCorrelationMetrics


fun correlation_calculate_value_for_test :: "CorrelationTest \<Rightarrow> real option" where
  "correlation_calculate_value_for_test (CorrelationTest cls method condition metric) =
     (case cls of
        TestTargetPredictionCorrelation \<Rightarrow> target_prediction_correlation (get_result metric)
      | HighlyCorrelatedFeatures \<Rightarrow> abs_max_num_features_correlation (get_result metric)
      | CorrelationChanges \<Rightarrow> abs_max_num_features_correlation (get_result metric))"

fun correlation_get_description :: "helpers \<Rightarrow> CorrelationTest \<Rightarrow> real \<Rightarrow> string" where
  "correlation_get_description h (CorrelationTest cls method condition metric) value =
     (case cls of
        TestTargetPredictionCorrelation \<Rightarrow>
          ''Correlation between target and prediction is '' @ str_number h value
      | HighlyCorrelatedFeatures \<Rightarrow>
          ''Max numeric features correlation is '' @ str_number h value
      | CorrelationChanges \<Rightarrow>
          ''Max numeric features correlation is '' @ str_number h value)"

subsection \<open>BaseCheckValueTest.check\<close>

text \<open>
  Modelled from the spec: \<^verbatim>\<open>BaseCheckValueTest.check\<close>
  (evidently.v2.tests.base_test, not under src/), the canonical algorithm: seed a Result
  with status SKIPPED; compute the value under test, an undefined value giving status
  ERROR at once; build the description from the value; resolve the effective Condition
  and evaluate it: true gives SUCCESS, false gives FAIL, an evaluation error gives
  ERROR. The arguments are the name of the test, what \<^verbatim>\<open>calculate_value_for_test\<close>
  returns, \<^verbatim>\<open>get_description\<close> and what \<^verbatim>\<open>get_condition\<close> returns.
\<close>

definition BaseCheckValueTest_check ::
  "helpers \<Rightarrow> string \<Rightarrow> real option \<Rightarrow> (real \<Rightarrow> string) \<Rightarrow> TestValueCondition \<Rightarrow>
   error + TestResult" where
  "BaseCheckValueTest_check h test_name calculated get_description get_condition =
     (let result = \<lparr>name = test_name, description = ''The test was not launched'',
                    status = SKIPPED\<rparr>
      in
        (case calculated of
           None \<Rightarrow> Inr (result\<lparr>status := ERROR\<rparr>)
         | Some value \<Rightarrow>
             evaluate_condition h (Inr get_condition) value
               (result\<lparr>description := get_description value\<rparr>)))"

subsection \<open>Out-of-range tests (BaseDataQualityValueRangeMetricsTest)\<close>

datatype range_cls = TestNumberOfOutRangeValues | TestShareOfOutRangeValues

text \<open>
  An instance: its class and the attributes \<^verbatim>\<open>column_name\<close>, \<^verbatim>\<open>left\<close>,
  \<^verbatim>\<open>right\<close>, \<^verbatim>\<open>condition\<close> and \<^verbatim>\<open>metric\<close>, in this order.
\<close>

datatype RangeTest =
  RangeTest range_cls string "real option" "real option" TestValueCondition
    DataQualityValueRangeMetrics

fun range_name :: "range_cls \<Rightarrow> string" where
  "range_name TestNumberOfOutRangeValues =
     ''Test the number of out range values for a given feature and compares it against the threshold''"
| "range_name TestShareOfOutRangeValues = ''Test Share of Out-Of-Range Values''"

fun range_get_condition :: "RangeTest \<Rightarrow> TestValueCondition" where
  "range_get_condition (RangeTest cls column_name left right condition metric) =
     (if cls = TestShareOfOutRangeValues then
        if is_set condition then condition
        else unset\<lparr>eq := Some (approx 0 None None)\<rparr>
      else condition)"

fun range_calculate_value_for_test :: "RangeTest \<Rightarrow> real" where
  "range_calculate_value_for_test (RangeTest cls column_name left right condition metric) =
     (case cls of
        TestNumberOfOutRangeValues \<Rightarrow> of_int (number_not_in_range (get_result metric))
      | TestShareOfOutRangeValues \<Rightarrow> share_not_in_range (get_result metric))"

fun range_get_description :: "helpers \<Rightarrow> RangeTest \<Rightarrow> real \<Rightarrow> string" where
  "range_get_description h (RangeTest cls column_name left right condition metric) value =
     (case cls of
        TestNumberOfOutRangeValues \<Rightarrow>
          ''Number of out of the range values for feature '' @ quoted column_name @ '' is ''
          @ str_number h value
      | TestShareOfOutRangeValues \<Rightarrow>
          ''Share of Out-Of-Range Values for feature '' @ column_name @ '' is ''
          @ str_number h (np_round h value 3) @ ''. '' @ spaces 8 @ ''Test Threshold is [''
          @ str_condition h
              (range_get_condition (RangeTest cls column_name left right condition metric))
          @ ''].'')"

definition range_check :: "helpers \<Rightarrow> RangeTest \<Rightarrow> error + TestResult" where
  "range_check h self =
     (case self of RangeTest cls column_name left right condition metric \<Rightarrow>
        BaseCheckValueTest_check h (range_name cls)
          (Some (range_calculate_value_for_test self)) (range_get_description h self)
          (range_get_condition self))"

subsection \<open>Out-of-list tests (BaseDataQualityValueListMetricsTest)\<close>

datatype list_cls = TestNumberOfOutListValues | TestShareOfOutListValues

text \<open>
  An instance: its class and the attributes \<^verbatim>\<open>column_name\<close>, \<^verbatim>\<open>values\<close>,
  \<^verbatim>\<open>condition\<close> and \<^verbatim>\<open>metric\<close>, in this order.
\<close>

datatype ListTest =
  ListTest list_cls string "scalar list option" TestValueCondition DataQualityValueListMetrics

fun list_name :: "list_cls \<Rightarrow> string" where
  "list_name TestNumberOfOutListValues =
     ''Test the number of out list values for a given feature and compares it against the threshold''"
| "list_name TestShareOfOutListValues = ''Test Share of Out-Of-List Values''"

fun list_get_condition :: "ListTest \<Rightarrow> TestValueCondition" where
  "list_get_condition (ListTest cls column_name values condition metric) =
     (if cls = TestShareOfOutListValues then
        if is_set condition then condition
        else unset\<lparr>eq := Some (approx 0 None None)\<rparr>
      else condition)"

fun list_calculate_value_for_test :: "ListTest \<Rightarrow> real" where
  "list_calculate_value_for_test (ListTest cls column_name values condition metric) =
     (case cls of
        TestNumberOfOutListValues \<Rightarrow> of_int (number_not_in_list (get_result metric))
      | TestShareOfOutListValues \<Rightarrow> share_not_in_list (get_result metric))"

fun list_get_description :: "helpers \<Rightarrow> ListTest \<Rightarrow> real \<Rightarrow> string" where
  "list_get_description h (ListTest cls column_name values condition metric) value =
     (case cls of
        TestNumberOfOutListValues \<Rightarrow>
          ''Number of out of the list values for feature '' @ quoted column_name @ '' is ''
          @ str_number h value
      | TestShareOfOutListValues \<Rightarrow>
          ''Share of Out-Of-List Values for feature '' @ column_name @ '' is ''
          @ str_number h (np_round h value 3) @ ''. Test Threshold '' @ spaces 12 @ ''is [''
          @ str_condition h
              (list_get_condition (ListTest cls column_name values condition metric))
          @ ''].'')"

definition list_check :: "helpers \<Rightarrow> ListTest \<Rightarrow> error + TestResult" where
  "list_check h self =
     (case self of ListTest cls column_name values condition metric \<Rightarrow>
        BaseCheckValueTest_check h (list_name cls)
          (Some (list_calculate_value_for_test self)) (list_get_description h self)
          (list_get_condition self))"

subsection \<open>TestValueQuantile\<close>

text \<open>
  \<^verbatim>\<open>DataQualityValueQuantileMetrics(column=..., quantile=...)\<close>; its result carries
  the value of the quantile.
\<close>

type_synonym DataQualityValueQuantileMetrics = "(string option \<times> real option, real) Metric"

text \<open>
  An instance: the attributes \<^verbatim>\<open>column_name\<close>, \<^verbatim>\<open>quantile\<close>,
  \<^verbatim>\<open>condition\<close> and \<^verbatim>\<open>metric\<close>, in this order. The constructor compares
  \<^verbatim>\<open>column_name\<close> with None, so it is optional here.
\<close>

datatype TestValueQuantile =
  TestValueQuantile "string option" "real option" TestValueCondition
    DataQualityValueQuantileMetrics

text \<open>
  \<^verbatim>\<open>__init__(self, column_name, quantile, eq=None, ..., not_in=None, metric=None)\<close>.
  \<open>bounds\<close> holds the keyword arguments eq, ..., not_in, which
  \<^verbatim>\<open>BaseCheckValueTest.__init__\<close> (modelled from the spec: a Test holds the
  user-supplied bound values) keeps as the condition of the instance. \<open>new_metric\<close>
  stands for the constructor of DataQualityValueQuantileMetrics, which is not under src/
  and may raise.
\<close>

definition TestValueQuantile_init ::
  "(string option \<Rightarrow> real option \<Rightarrow> error + DataQualityValueQuantileMetrics) \<Rightarrow>
   string option \<Rightarrow> real option \<Rightarrow> TestValueCondition \<Rightarrow>
   DataQualityValueQuantileMetrics option \<Rightarrow> error + TestValueQuantile" where
  "TestValueQuantile_init new_metric column_name quantile bounds metric =
     (case metric of
        Some m \<Rightarrow>
          if column_name \<noteq> None \<or> quantile \<noteq> None then
            Inl (ValueError ''Test parameters and given  metric conflict'')
          else Inr (TestValueQuantile column_name quantile bounds m)
      | None \<Rightarrow>
          (case new_metric column_name quantile of
             Inl e \<Rightarrow> Inl e
           | Inr m \<Rightarrow> Inr (TestValueQuantile column_name quantile bounds m)))"

subsection \<open>Evaluation of a Condition\<close>

text \<open>
  Modelled from the spec: \<^verbatim>\<open>TestValueCondition.check_value\<close> (not under src/) on
  a numeric value. Equality against a tolerant value succeeds if the observed value lies
  within the union of the relative band (the target give or take the relative tolerance
  as a fraction of the target) and the absolute band. For a tolerance the caller leaves
  out the spec speaks of a small fixed tolerance band without giving its size: the two
  fixed tolerances are parameters.
\<close>

record approx_defaults =
  default_relative :: real
  default_absolute :: real

definition tolerance :: "approx_defaults \<Rightarrow> ApproxValue \<Rightarrow> real" where
  "tolerance d a =
     max (\<bar>target a\<bar> * (case relative a of None \<Rightarrow> default_relative d | Some r \<Rightarrow> r))
         (case absolute a of None \<Rightarrow> default_absolute d | Some t \<Rightarrow> t)"

definition bound_eq :: "approx_defaults \<Rightarrow> real \<Rightarrow> bound \<Rightarrow> bool" where
  "bound_eq d value b =
     (case b of
        Exact x \<Rightarrow> value = x
      | Approx a \<Rightarrow> target a - tolerance d a \<le> value \<and> value \<le> target a + tolerance d a)"

text \<open>
  Every configured predicate must hold. The predicates are all applicable to a number,
  so no evaluation error arises here.
\<close>

definition TestValueCondition_check_value ::
  "approx_defaults \<Rightarrow> TestValueCondition \<Rightarrow> real \<Rightarrow> error + bool" where
  "TestValueCondition_check_value d c value =
     Inr ((case eq c of None \<Rightarrow> True | Some b \<Rightarrow> bound_eq d value b)
        \<and> (case gt c of None \<Rightarrow> True | Some x \<Rightarrow> value > x)
        \<and> (case gte c of None \<Rightarrow> True | Some x \<Rightarrow> value \<ge> x)
        \<and> (case is_in c of None \<Rightarrow> True | Some xs \<Rightarrow> List.member xs (Number value))
        \<and> (case lt c of None \<Rightarrow> True | Some x \<Rightarrow> value < x)
        \<and> (case lte c of None \<Rightarrow> True | Some x \<Rightarrow> value \<le> x)
        \<and> (case not_eq c of None \<Rightarrow> True | Some b \<Rightarrow> \<not> bound_eq d value b)
        \<and> (case not_in c of None \<Rightarrow> True | Some xs \<Rightarrow> \<not> List.member xs (Number value)))"

subsection \<open>Calls of check() with the state of the metric threaded through\<close>

text \<open>
  The functions above take the result of the metric as given. Here a call of
  \<^verbatim>\<open>check()\<close> is a state transformer: the state is what a call can change. The
  methods of this module assign to no attribute of \<^verbatim>\<open>self\<close>, and the objects they
  create (the result, a derived condition) are new in every call; what they do call is
  \<^verbatim>\<open>self.metric.get_result()\<close>, once or several times in a call.

  Modelled from the spec: \<^verbatim>\<open>Metric.get_result()\<close> (evidently.v2.metrics, not under
  src/) computes the result on the first access and caches it for the lifetime of the
  instance. The state of a call is this cache, None before the first access;
  \<open>get_result metric\<close> is the result that the computation yields on the (unchanged)
  data.
\<close>

type_synonym ('r, 'a) call = "'r option \<Rightarrow> (error + 'a) \<times> 'r option"
























text \<open>
  What holds of every call built from the steps above, on a metric whose computation
  yields \<open>computed\<close>: the call ends in the state it started in or in the state that
  holds the settled result (the cached result, or the computed one when nothing was
  cached), and started in that settled state it returns the same and stays there.
\<close>

definition settled :: "'r \<Rightarrow> 'r option \<Rightarrow> 'r" where
  "settled computed cache = (case cache of Some r \<Rightarrow> r | None \<Rightarrow> computed)"

definition stable :: "'r \<Rightarrow> ('r, 'a) call \<Rightarrow> bool" where
  "stable computed m =
     (\<forall>cache. (snd (m cache) = cache \<or> snd (m cache) = Some (settled computed cache))
        \<and> m (Some (settled computed cache)) = (fst (m cache), Some (settled computed cache)))"

section \<open>Properties\<close>

subsection \<open>Auxiliary facts\<close>

text \<open>The rounding of a number whose binade is known.\<close>

lemma floor_log2_between:
  assumes "2 ^ k \<le> x" and "x < 2 ^ Suc k"
  shows "\<lfloor>log 2 x\<rfloor> = int k"
proof -
  have "(0::real) < 2 ^ k" by simp
  with assms(1) have pos: "0 < x" by linarith
  have "2 powr (real_of_int (int k)) \<le> x"
    using assms(1) by (simp add: powr_realpow)
  moreover have "x < 2 powr (real_of_int (int k + 1))"
    using assms(2) by (simp add: powr_realpow add.commute powr_add)
  ultimately show ?thesis
    using floor_log_eq_powr_iff [of x 2 "int k"] pos by simp
qed

lemma round_double_at:
  assumes "2 ^ k \<le> \<bar>x\<bar>" and "\<bar>x\<bar> < 2 ^ Suc k"
  shows "round_double x
         = of_int (round_half_even (x / pow2 (int k - 52))) * pow2 (int k - 52)"
proof -
  have "(0::real) < 2 ^ k" by simp
  with assms(1) have "0 < \<bar>x\<bar>" by linarith
  then have "x \<noteq> 0" by simp
  with floor_log2_between [OF assms] show ?thesis
    by (simp add: round_double_def Let_def)
qed

lemma evaluate_condition_status:
  "evaluate_condition h c v result = Inr r \<Longrightarrow> status r \<in> {SUCCESS, FAIL, ERROR}"
  by (auto simp: evaluate_condition_def mark_as_error_def mark_as_success_def mark_as_fail_def
      split: sum.splits error.splits if_splits)

lemma feature_check_status:
  "feature_check h t = Inr r \<Longrightarrow> status r \<in> {SUCCESS, FAIL, ERROR}"
  by (cases t)
     (auto simp: Let_def mark_as_error_def mark_as_fail_def
        split: if_splits sum.splits option.splits dest: evaluate_condition_status)

lemma mean_in_n_sigmas_check_status:
  "mean_in_n_sigmas_check h t = Inr r \<Longrightarrow> status r \<in> {SUCCESS, FAIL, ERROR}"
  by (cases t) (auto simp: Let_def split: if_splits sum.splits option.splits)

lemma conflict_target_check_status:
  "status (conflict_target_check h t) \<in> {SUCCESS, FAIL, ERROR}"
  by (cases t) (auto simp: Let_def split: option.splits)

lemma conflict_prediction_check_status:
  "status (conflict_prediction_check h t) \<in> {SUCCESS, FAIL, ERROR}"
  by (cases t) (auto simp: Let_def split: option.splits)

lemma value_range_check_status:
  "status (value_range_check h t) \<in> {SUCCESS, FAIL, ERROR}"
  by (cases t) (auto simp: Let_def)

lemma value_list_check_status:
  "status (value_list_check h t) \<in> {SUCCESS, FAIL, ERROR}"
  by (cases t) (auto simp: Let_def)

text \<open>
  The check of a TestMostCommonValueShare with no explicit condition, when the column has
  a most-common-value percentage in the current and in the reference statistics: the
  status is decided by the tolerant equality around the reference share.
\<close>

lemma most_common_check_with_reference:
  assumes "\<not> is_set condition"
    and "check_value h = TestValueCondition_check_value d"
    and "reference_features_stats (get_result metric) = Some reference"
    and "get_all_features reference column_name = Some s"
    and "most_common_value_percentage s = Some p"
    and "get_all_features (features_stats (get_result metric)) column_name = Some c"
    and "most_common_value_percentage c = Some q"
  shows "\<exists>r. feature_check h (FeatureTest TestMostCommonValueShare column_name condition metric)
               = Inr r
             \<and> status r =
                 (if bound_eq d (q / 100) (approx (p / 100) (Some 0.1) None)
                  then SUCCESS else FAIL)"
  using assms
  by (simp add: Let_def getitem_def stats_getitem_def div_100_def evaluate_condition_def
      TestValueCondition_check_value_def unset_def mark_as_success_def mark_as_fail_def)
























subsection \<open>A missing feature\<close>

text \<open>
  C1. A feature-level test (any subclass of BaseFeatureDataQualityMetricsTest) whose
  column is absent from the feature statistics of the metric result returns at once,
  with a description that names the column. The status of that result is FAIL, not
  ERROR: the branch calls \<^verbatim>\<open>result.mark_as_fail()\<close>.
\<close>

theorem feature_check_missing_column:
  "get_all_features (features_stats (get_result metric)) column_name = None \<Longrightarrow>
   feature_check h (FeatureTest cls column_name condition metric)
   = Inr \<lparr>name = feature_name cls,
          description = ''Feature '' @ quoted column_name @ '' was not found'',
          status = FAIL\<rparr>"
  by (simp add: mark_as_fail_def)

text \<open>The scenario of the column "age" against feature statistics without it.\<close>

theorem feature_check_missing_column_age:
  "\<forall>h. feature_check h
     (FeatureTest TestFeatureValueMin ''age'' unset
        (Metric () \<lparr>features_stats = DataQualityStats Map.empty,
                     reference_features_stats = None\<rparr>))
   = Inr \<lparr>name = ''Test a feature min value'',
          description = ''Feature '' @ quoted ''age'' @ '' was not found'',
          status = FAIL\<rparr>"
  using feature_check_missing_column
    [of "Metric () \<lparr>features_stats = DataQualityStats Map.empty,
                     reference_features_stats = None\<rparr>" "''age''" _ TestFeatureValueMin unset]
  by simp

subsection \<open>Default conditions\<close>

text \<open>
  C2. A TestMostCommonValueShare with no explicit condition derives its condition: with
  no reference statistics the fixed bound lt=0.8; with reference statistics that hold
  the column's most-common-value percentage p, the tolerant equality to the share p/100
  with relative tolerance 0.1. With the reference share 0.42 the check of the current
  share 0.46 gives SUCCESS and the check of 0.50 gives FAIL (the condition being
  evaluated as the spec describes it, with a fixed absolute tolerance below 0.08).
\<close>

theorem most_common_value_share_default:
  assumes "\<not> is_set condition"
  shows
    "(reference_features_stats (get_result metric) = None \<longrightarrow>
        feature_get_condition (FeatureTest TestMostCommonValueShare column_name condition metric)
        = Inr (unset\<lparr>lt := Some 0.8\<rparr>))
     \<and> (reference_features_stats (get_result metric) = Some reference
          \<and> get_all_features reference column_name = Some s
          \<and> most_common_value_percentage s = Some p \<longrightarrow>
        feature_get_condition (FeatureTest TestMostCommonValueShare column_name condition metric)
        = Inr (unset\<lparr>eq := Some (approx (p / 100) (Some 0.1) None)\<rparr>))
     \<and> (check_value h = TestValueCondition_check_value d \<and> default_absolute d < 8 / 100
          \<and> reference_features_stats (get_result metric) = Some reference
          \<and> get_all_features reference column_name = Some s
          \<and> most_common_value_percentage s = Some 42
          \<and> get_all_features (features_stats (get_result metric)) column_name = Some c \<longrightarrow>
        (most_common_value_percentage c = Some 46 \<longrightarrow>
           (\<exists>r. feature_check h
                   (FeatureTest TestMostCommonValueShare column_name condition metric) = Inr r
                 \<and> status r = SUCCESS))
        \<and> (most_common_value_percentage c = Some 50 \<longrightarrow>
           (\<exists>r. feature_check h
                   (FeatureTest TestMostCommonValueShare column_name condition metric) = Inr r
                 \<and> status r = FAIL)))"
proof (intro conjI impI)
  assume "reference_features_stats (get_result metric) = None"
  with assms show "feature_get_condition
      (FeatureTest TestMostCommonValueShare column_name condition metric)
      = Inr (unset\<lparr>lt := Some 0.8\<rparr>)"
    by simp
next
  assume "reference_features_stats (get_result metric) = Some reference
          \<and> get_all_features reference column_name = Some s
          \<and> most_common_value_percentage s = Some p"
  with assms show "feature_get_condition
      (FeatureTest TestMostCommonValueShare column_name condition metric)
      = Inr (unset\<lparr>eq := Some (approx (p / 100) (Some 0.1) None)\<rparr>)"
    by (simp add: stats_getitem_def getitem_def div_100_def)
next
  assume a: "check_value h = TestValueCondition_check_value d \<and> default_absolute d < 8 / 100
          \<and> reference_features_stats (get_result metric) = Some reference
          \<and> get_all_features reference column_name = Some s
          \<and> most_common_value_percentage s = Some 42
          \<and> get_all_features (features_stats (get_result metric)) column_name = Some c"
    and q: "most_common_value_percentage c = Some 46"
  have "bound_eq d (46 / 100) (approx (42 / 100) (Some 0.1) None)"
    by (simp add: bound_eq_def approx_def tolerance_def max_def)
  with most_common_check_with_reference [of condition h d metric reference column_name s 42 c 46]
    assms a q
  show "\<exists>r. feature_check h
                   (FeatureTest TestMostCommonValueShare column_name condition metric) = Inr r
                 \<and> status r = SUCCESS"
    by simp
next
  assume a: "check_value h = TestValueCondition_check_value d \<and> default_absolute d < 8 / 100
          \<and> reference_features_stats (get_result metric) = Some reference
          \<and> get_all_features reference column_name = Some s
          \<and> most_common_value_percentage s = Some 42
          \<and> get_all_features (features_stats (get_result metric)) column_name = Some c"
    and q: "most_common_value_percentage c = Some 50"
  from a have "\<not> bound_eq d (50 / 100) (approx (42 / 100) (Some 0.1) None)"
    by (simp add: bound_eq_def approx_def tolerance_def max_def)
  with most_common_check_with_reference [of condition h d metric reference column_name s 42 c 50]
    assms a q
  show "\<exists>r. feature_check h
                   (FeatureTest TestMostCommonValueShare column_name condition metric) = Inr r
                 \<and> status r = FAIL"
    by simp
qed

text \<open>
  The scenario of C2 with the fixed tolerances 1e-6 (relative) and 1e-12 (absolute): no
  reference, and the reference share 0.42 against the current shares 0.46 and 0.50.
\<close>

theorem most_common_value_share_default_witness:
  "feature_get_condition
     (FeatureTest TestMostCommonValueShare ''city'' unset
        (Metric () \<lparr>features_stats = DataQualityStats Map.empty,
                     reference_features_stats = None\<rparr>))
   = Inr (unset\<lparr>lt := Some 0.8\<rparr>)
   \<and> feature_get_condition
     (FeatureTest TestMostCommonValueShare ''city'' unset
        (Metric ()
           \<lparr>features_stats = DataQualityStats
              [''city'' \<mapsto> \<lparr>min_value = None, max_value = None, mean = None,
                 percentile_50 = None, std = None, unique_count = None,
                 unique_percentage = None, most_common_value_percentage = Some 46\<rparr>],
            reference_features_stats = Some (DataQualityStats
              [''city'' \<mapsto> \<lparr>min_value = None, max_value = None, mean = None,
                 percentile_50 = None, std = None, unique_count = None,
                 unique_percentage = None, most_common_value_percentage = Some 42\<rparr>])\<rparr>))
   = Inr (unset\<lparr>eq := Some (approx (42 / 100) (Some 0.1) None)\<rparr>)
   \<and> (\<exists>r. feature_check
          \<lparr>check_value = TestValueCondition_check_value
              \<lparr>default_relative = 1 / 10 ^ 6, default_absolute = 1 / 10 ^ 12\<rparr>,
           str_condition = (\<lambda>c. []), str_number = (\<lambda>x. []), str_int = (\<lambda>n. []),
           np_round = (\<lambda>x n. x), float_add = double_add, float_sub = double_sub,
           float_mul = double_mul\<rparr>
          (FeatureTest TestMostCommonValueShare ''city'' unset
             (Metric ()
                \<lparr>features_stats = DataQualityStats
                   [''city'' \<mapsto> \<lparr>min_value = None, max_value = None, mean = None,
                      percentile_50 = None, std = None, unique_count = None,
                      unique_percentage = None, most_common_value_percentage = Some 46\<rparr>],
                 reference_features_stats = Some (DataQualityStats
                   [''city'' \<mapsto> \<lparr>min_value = None, max_value = None, mean = None,
                      percentile_50 = None, std = None, unique_count = None,
                      unique_percentage = None,
                      most_common_value_percentage = Some 42\<rparr>])\<rparr>))
          = Inr r \<and> status r = SUCCESS)
   \<and> (\<exists>r. feature_check
          \<lparr>check_value = TestValueCondition_check_value
              \<lparr>default_relative = 1 / 10 ^ 6, default_absolute = 1 / 10 ^ 12\<rparr>,
           str_condition = (\<lambda>c. []), str_number = (\<lambda>x. []), str_int = (\<lambda>n. []),
           np_round = (\<lambda>x n. x), float_add = double_add, float_sub = double_sub,
           float_mul = double_mul\<rparr>
          (FeatureTest TestMostCommonValueShare ''city'' unset
             (Metric ()
                \<lparr>features_stats = DataQualityStats
                   [''city'' \<mapsto> \<lparr>min_value = None, max_value = None, mean = None,
                      percentile_50 = None, std = None, unique_count = None,
                      unique_percentage = None, most_common_value_percentage = Some 50\<rparr>],
                 reference_features_stats = Some (DataQualityStats
                   [''city'' \<mapsto> \<lparr>min_value = None, max_value = None, mean = None,
                      percentile_50 = None, std = None, unique_count = None,
                      unique_percentage = None,
                      most_common_value_percentage = Some 42\<rparr>])\<rparr>))
          = Inr r \<and> status r = FAIL)"
proof -
  let ?stats = "\<lambda>q. \<lparr>min_value = None, max_value = None, mean = None,
                 percentile_50 = None, std = None, unique_count = None,
                 unique_percentage = None, most_common_value_percentage = Some q\<rparr>"
  let ?reference = "DataQualityStats [''city'' \<mapsto> ?stats 42]"
  let ?M = "\<lambda>q. Metric () \<lparr>features_stats = DataQualityStats [''city'' \<mapsto> ?stats q],
                            reference_features_stats = Some ?reference\<rparr>"
  let ?N = "Metric () \<lparr>features_stats = DataQualityStats Map.empty,
                         reference_features_stats = None\<rparr>"
  let ?d = "\<lparr>default_relative = 1 / 10 ^ 6, default_absolute = 1 / 10 ^ 12\<rparr>"
  let ?h = "\<lparr>check_value = TestValueCondition_check_value ?d,
           str_condition = (\<lambda>c. []), str_number = (\<lambda>x. []), str_int = (\<lambda>n. []),
           np_round = (\<lambda>x n. x), float_add = double_add, float_sub = double_sub,
           float_mul = double_mul\<rparr>"
  have u: "\<not> is_set unset"
    by (simp add: is_set_def unset_def)
  show ?thesis
    using
      most_common_value_share_default
        [OF u, where metric = ?N and column_name = "''city''"]
      most_common_value_share_default
        [OF u, where metric = "?M 46" and column_name = "''city''" and reference = ?reference
           and s = "?stats 42" and p = 42 and h = ?h and d = ?d and c = "?stats 46"]
      most_common_value_share_default
        [OF u, where metric = "?M 50" and column_name = "''city''" and reference = ?reference
           and s = "?stats 42" and p = 42 and h = ?h and d = ?d and c = "?stats 50"]
    by simp
qed

text \<open>
  C3. A TestShareOfOutRangeValues and a TestShareOfOutListValues with no explicit
  condition derive the tolerant equality to 0, \<^verbatim>\<open>approx(0)\<close>. A metric result with
  share_not_in_range = 0.03 then gives the status FAIL (the check and the evaluation of
  the condition being those the spec describes, with a fixed absolute tolerance below
  0.03).
\<close>

theorem share_of_out_values_default:
  assumes "\<not> is_set condition"
  shows
    "range_get_condition
       (RangeTest TestShareOfOutRangeValues column_name left right condition metric)
       = unset\<lparr>eq := Some (approx 0 None None)\<rparr>
     \<and> list_get_condition
       (ListTest TestShareOfOutListValues column_name' vs condition metric')
       = unset\<lparr>eq := Some (approx 0 None None)\<rparr>
     \<and> (check_value h = TestValueCondition_check_value d \<and> default_absolute d < 3 / 100
          \<and> share_not_in_range (get_result metric) = 3 / 100 \<longrightarrow>
        (\<exists>r. range_check h
                (RangeTest TestShareOfOutRangeValues column_name left right condition metric)
              = Inr r \<and> status r = FAIL))"
  using assms
  by (auto simp: range_check_def BaseCheckValueTest_check_def evaluate_condition_def
      TestValueCondition_check_value_def unset_def bound_eq_def approx_def tolerance_def
      mark_as_fail_def mark_as_success_def Let_def max_def)

text \<open>The scenario of C3 with the fixed tolerances 1e-6 and 1e-12.\<close>

theorem share_of_out_values_default_witness:
  "range_get_condition
     (RangeTest TestShareOfOutRangeValues ''age'' None None unset
        (Metric (''age'', Some 0, Some 100)
           \<lparr>number_not_in_range = 3, share_not_in_range = 3 / 100\<rparr>))
     = unset\<lparr>eq := Some (approx 0 None None)\<rparr>
   \<and> list_get_condition
     (ListTest TestShareOfOutListValues ''city'' None unset
        (Metric (''city'', None) \<lparr>number_not_in_list = 0, share_not_in_list = 0\<rparr>))
     = unset\<lparr>eq := Some (approx 0 None None)\<rparr>
   \<and> (\<exists>r. range_check
          \<lparr>check_value = TestValueCondition_check_value
              \<lparr>default_relative = 1 / 10 ^ 6, default_absolute = 1 / 10 ^ 12\<rparr>,
           str_condition = (\<lambda>c. []), str_number = (\<lambda>x. []), str_int = (\<lambda>n. []),
           np_round = (\<lambda>x n. x), float_add = double_add, float_sub = double_sub,
           float_mul = double_mul\<rparr>
          (RangeTest TestShareOfOutRangeValues ''age'' None None unset
             (Metric (''age'', Some 0, Some 100)
                \<lparr>number_not_in_range = 3, share_not_in_range = 3 / 100\<rparr>))
        = Inr r \<and> status r = FAIL)"
proof -
  let ?d = "\<lparr>default_relative = 1 / 10 ^ 6, default_absolute = 1 / 10 ^ 12\<rparr>"
  let ?h = "\<lparr>check_value = TestValueCondition_check_value ?d,
           str_condition = (\<lambda>c. []), str_number = (\<lambda>x. []), str_int = (\<lambda>n. []),
           np_round = (\<lambda>x n. x), float_add = double_add, float_sub = double_sub,
           float_mul = double_mul\<rparr>"
  have u: "\<not> is_set unset"
    by (simp add: is_set_def unset_def)
  show ?thesis
    using share_of_out_values_default
        [OF u, where column_name = "''age''" and left = None and right = None
           and metric = "Metric (''age'', Some 0, Some 100)
             \<lparr>number_not_in_range = 3, share_not_in_range = 3 / 100\<rparr>"
           and column_name' = "''city''" and vs = None
           and metric' = "Metric (''city'', None)
             \<lparr>number_not_in_list = 0, share_not_in_list = 0\<rparr>"
           and h = ?h and d = ?d]
    by simp
qed

subsection \<open>The mean within n sigmas\<close>

text \<open>
  C4, as stated, fails. The reference mean is 2^53, the reference std 0.5, n is 2 and the
  current mean is 2^53: the current mean lies strictly between
  reference_mean - n * reference_std and reference_mean + n * reference_std, but the
  float sum 2^53 + 1.0 is 2^53 (a tie, rounded to the even significand), so the right
  bound that check computes is the current mean itself and the status is FAIL.
\<close>

theorem mean_in_n_sigmas_exact_window_fails:
  "((2 ^ 53 - 2 * (1 / 2) :: real) < 2 ^ 53 \<and> (2 ^ 53 :: real) < 2 ^ 53 + 2 * (1 / 2))
   \<and> map_sum id status
       (mean_in_n_sigmas_check
          \<lparr>check_value = (\<lambda>c v. Inr True), str_condition = (\<lambda>c. []),
           str_number = (\<lambda>x. []), str_int = (\<lambda>n. []), np_round = (\<lambda>x n. x),
           float_add = double_add, float_sub = double_sub, float_mul = double_mul\<rparr>
          (TestMeanInNSigmas ''age'' 2
             (Metric ()
                \<lparr>features_stats = DataQualityStats
                   [''age'' \<mapsto> \<lparr>min_value = None, max_value = None, mean = Some (2 ^ 53),
                      percentile_50 = None, std = None, unique_count = None,
                      unique_percentage = None, most_common_value_percentage = None\<rparr>],
                 reference_features_stats = Some (DataQualityStats
                   [''age'' \<mapsto> \<lparr>min_value = None, max_value = None, mean = Some (2 ^ 53),
                      percentile_50 = None, std = Some (1 / 2), unique_count = None,
                      unique_percentage = None,
                      most_common_value_percentage = None\<rparr>])\<rparr>)))
     = Inr FAIL"
proof -
  have product: "double_mul (1 / 2) 2 = 1"
    using round_double_at [of 0 1] by (simp add: double_mul_def pow2_def round_half_even_def)
  have left: "double_sub (2 ^ 53) 1 = 2 ^ 53 - 1"
    using round_double_at [of 52 "2 ^ 53 - 1"]
    by (simp add: double_sub_def pow2_def round_half_even_def)
  have right: "double_add (2 ^ 53) 1 = 2 ^ 53"
    using round_double_at [of 53 "2 ^ 53 + 1"]
    by (simp add: double_add_def pow2_def round_half_even_def)
  show ?thesis
    using product left right
    by (simp add: stats_getitem_def getitem_def Let_def)
qed

text \<open>
  C4, amended. For a TestMeanInNSigmas whose column is present in the current and in the
  reference feature statistics (with numeric means and a numeric reference std), check
  returns SUCCESS exactly when left < current_mean < right, both strict, and FAIL
  otherwise, where left and right are the bounds as check computes them in float
  arithmetic: sigmas = reference_std * n, left = reference_mean - sigmas and
  right = reference_mean + sigmas, each operation giving a float. n is 2 when the caller
  leaves it out.
\<close>

theorem mean_in_n_sigmas_window:
  assumes "get_all_features (features_stats (get_result metric)) column_name = Some current"
    and "reference_features_stats (get_result metric) = Some reference"
    and "get_all_features reference column_name = Some ref"
    and "mean current = Some current_mean"
    and "mean ref = Some reference_mean"
    and "std ref = Some reference_std"
  shows "(\<exists>r. mean_in_n_sigmas_check h (TestMeanInNSigmas column_name n metric) = Inr r \<and>
              status r =
                (if float_sub h reference_mean (float_mul h reference_std (of_int n))
                      < current_mean
                    \<and> current_mean
                      < float_add h reference_mean (float_mul h reference_std (of_int n))
                 then SUCCESS else FAIL))
         \<and> TestMeanInNSigmas_init default_metric column_name None given
             = TestMeanInNSigmas column_name 2
                 (case given of Some m \<Rightarrow> m | None \<Rightarrow> default_metric)"
  using assms
  by (simp add: stats_getitem_def getitem_def Let_def TestMeanInNSigmas_init_def)

text \<open>
  The scenario of C4 in binary64 arithmetic: reference mean 50, reference std 5, n left
  at its default (the window is from 40 to 60, computed without rounding); the current
  mean 61 gives FAIL, the current mean 55 gives SUCCESS.
\<close>

theorem mean_in_n_sigmas_window_witness:
  "\<forall>dm.
     (\<exists>r. mean_in_n_sigmas_check
        \<lparr>check_value = (\<lambda>c v. Inr True), str_condition = (\<lambda>c. []),
         str_number = (\<lambda>x. []), str_int = (\<lambda>n. []), np_round = (\<lambda>x n. x),
         float_add = double_add, float_sub = double_sub, float_mul = double_mul\<rparr>
        (TestMeanInNSigmas_init dm ''age'' None
           (Some (Metric ()
              \<lparr>features_stats = DataQualityStats
                 [''age'' \<mapsto> \<lparr>min_value = None, max_value = None, mean = Some 61,
                    percentile_50 = None, std = None, unique_count = None,
                    unique_percentage = None, most_common_value_percentage = None\<rparr>],
               reference_features_stats = Some (DataQualityStats
                 [''age'' \<mapsto> \<lparr>min_value = None, max_value = None, mean = Some 50,
                    percentile_50 = None, std = Some 5, unique_count = None,
                    unique_percentage = None, most_common_value_percentage = None\<rparr>])\<rparr>)))
        = Inr r \<and> status r = FAIL)
   \<and> (\<exists>r. mean_in_n_sigmas_check
        \<lparr>check_value = (\<lambda>c v. Inr True), str_condition = (\<lambda>c. []),
         str_number = (\<lambda>x. []), str_int = (\<lambda>n. []), np_round = (\<lambda>x n. x),
         float_add = double_add, float_sub = double_sub, float_mul = double_mul\<rparr>
        (TestMeanInNSigmas_init dm ''age'' None
           (Some (Metric ()
              \<lparr>features_stats = DataQualityStats
                 [''age'' \<mapsto> \<lparr>min_value = None, max_value = None, mean = Some 55,
                    percentile_50 = None, std = None, unique_count = None,
                    unique_percentage = None, most_common_value_percentage = None\<rparr>],
               reference_features_stats = Some (DataQualityStats
                 [''age'' \<mapsto> \<lparr>min_value = None, max_value = None, mean = Some 50,
                    percentile_50 = None, std = Some 5, unique_count = None,
                    unique_percentage = None, most_common_value_percentage = None\<rparr>])\<rparr>)))
        = Inr r \<and> status r = SUCCESS)"
proof (intro allI conjI)
  fix dm
  let ?h = "\<lparr>check_value = (\<lambda>c v. Inr True), str_condition = (\<lambda>c. []),
         str_number = (\<lambda>x. []), str_int = (\<lambda>n. []), np_round = (\<lambda>x n. x),
         float_add = double_add, float_sub = double_sub, float_mul = double_mul\<rparr>"
  let ?cur = "\<lambda>m. \<lparr>min_value = None, max_value = None, mean = Some m,
                    percentile_50 = None, std = None, unique_count = None,
                    unique_percentage = None, most_common_value_percentage = None\<rparr>"
  let ?ref = "\<lparr>min_value = None, max_value = None, mean = Some 50,
                    percentile_50 = None, std = Some 5, unique_count = None,
                    unique_percentage = None, most_common_value_percentage = None\<rparr>"
  let ?refs = "DataQualityStats [''age'' \<mapsto> ?ref]"
  let ?M = "\<lambda>m. Metric () \<lparr>features_stats = DataQualityStats [''age'' \<mapsto> ?cur m],
               reference_features_stats = Some ?refs\<rparr>"
  have product: "double_mul 5 2 = 10"
    using round_double_at [of 3 10] by (simp add: double_mul_def pow2_def round_half_even_def)
  have left: "double_sub 50 10 = 40"
    using round_double_at [of 5 40] by (simp add: double_sub_def pow2_def round_half_even_def)
  have right: "double_add 50 10 = 60"
    using round_double_at [of 5 60] by (simp add: double_add_def pow2_def round_half_even_def)
  show "\<exists>r. mean_in_n_sigmas_check ?h
          (TestMeanInNSigmas_init dm ''age'' None (Some (?M 61)))
        = Inr r \<and> status r = FAIL"
    using mean_in_n_sigmas_window
      [of "?M 61" "''age''" "?cur 61" ?refs ?ref 61 50 5 ?h 2 dm "Some (?M 61)"]
    by (simp add: product left right)
  show "\<exists>r. mean_in_n_sigmas_check ?h
          (TestMeanInNSigmas_init dm ''age'' None (Some (?M 55)))
        = Inr r \<and> status r = SUCCESS"
    using mean_in_n_sigmas_window
      [of "?M 55" "''age''" "?cur 55" ?refs ?ref 55 50 5 ?h 2 dm "Some (?M 55)"]
    by (simp add: product left right)
qed

text \<open>
  C5. A TestMeanInNSigmas checked against a metric result with no reference feature
  statistics raises ValueError("Reference should be present"): the exception leaves
  check, no Result (of status ERROR or any other) is returned.
\<close>

theorem mean_in_n_sigmas_no_reference:
  "reference_features_stats (get_result metric) = None \<Longrightarrow>
   mean_in_n_sigmas_check h (TestMeanInNSigmas column_name n metric)
   = Inl (ValueError ''Reference should be present'')"
  by simp

theorem mean_in_n_sigmas_no_reference_witness:
  "\<forall>h. mean_in_n_sigmas_check h
     (TestMeanInNSigmas ''age'' 2
        (Metric () \<lparr>features_stats = DataQualityStats Map.empty,
                     reference_features_stats = None\<rparr>))
   = Inl (ValueError ''Reference should be present'')"
  using mean_in_n_sigmas_no_reference
    [of "Metric () \<lparr>features_stats = DataQualityStats Map.empty,
                     reference_features_stats = None\<rparr>" _ "''age''" 2]
  by simp

subsection \<open>Every check\<close>



text \<open>
  C7. A Result that a completed check() returns carries one of the statuses
  SUCCESS, FAIL, ERROR; it is never the seeded status SKIPPED. This covers every test
  whose check() is defined in the module.
\<close>

theorem check_status_terminal:
  "check h t = Inr r \<Longrightarrow> status r \<in> {SUCCESS, FAIL, ERROR} \<and> status r \<noteq> SKIPPED"
proof -
  assume run: "check h t = Inr r"
  have "status r \<in> {SUCCESS, FAIL, ERROR}"
  proof (cases t)
    case (Feature x)
    with run feature_check_status [of h x r] show ?thesis by simp
  next
    case (MeanInNSigmas x)
    with run mean_in_n_sigmas_check_status [of h x r] show ?thesis by simp
  next
    case (ConflictTarget x)
    with run conflict_target_check_status [of h x] show ?thesis by auto
  next
    case (ConflictPrediction x)
    with run conflict_prediction_check_status [of h x] show ?thesis by auto
  next
    case (ValueRange x)
    with run value_range_check_status [of h x] show ?thesis by auto
  next
    case (ValueList x)
    with run value_list_check_status [of h x] show ?thesis by auto
  qed
  then show ?thesis by auto
qed

theorem check_status_terminal_witness:
  "\<forall>h. \<exists>r. check h (ConflictTarget (TestConflictTarget
            (Metric () \<lparr>number_not_stable_target = None,
                         number_not_stable_prediction = None\<rparr>))) = Inr r
        \<and> status r \<in> {SUCCESS, FAIL, ERROR} \<and> status r \<noteq> SKIPPED"
proof
  fix h
  let ?t = "ConflictTarget (TestConflictTarget
            (Metric () \<lparr>number_not_stable_target = None,
                         number_not_stable_prediction = None\<rparr>))"
  have run: "check h ?t = Inr \<lparr>name = ''Test number of conflicts in target'',
              description = ''No target in the dataset'', status = ERROR\<rparr>"
    by simp
  from check_status_terminal [OF run] run
  show "\<exists>r. check h ?t = Inr r \<and> status r \<in> {SUCCESS, FAIL, ERROR} \<and> status r \<noteq> SKIPPED"
    by blast
qed

subsection \<open>Construction with an explicit metric\<close>

text \<open>
  C8, as stated, fails: TestValueRange is constructed with an explicit metric for the
  column "height" and the interval from 5 to 6 together with the parameters column_name
  "age", left 0, right 100; no exception is raised and the instance holds the given
  metric.
\<close>

theorem TestValueRange_init_accepts_conflicting_metric:
  "TestValueRange_init (\<lambda>column left right. Inl TypeError) ''age'' (Some 0) (Some 100)
     (Some (Metric (''height'', Some 5, Some 6)
              \<lparr>number_not_in_range = 0, share_not_in_range = 0\<rparr>))
   = Inr (TestValueRange ''age'' (Some 0) (Some 100)
            (Metric (''height'', Some 5, Some 6)
               \<lparr>number_not_in_range = 0, share_not_in_range = 0\<rparr>))"
  by (simp add: TestValueRange_init_def)

text \<open>
  C8, amended. TestValueQuantile raises ValueError at construction time when it is given
  an explicit metric together with a column_name or a quantile that is not None.
  TestValueRange makes no such check: given an explicit metric, its construction
  succeeds for every column_name, left and right, and the instance holds the given
  metric.
\<close>

theorem conflict_check_only_in_TestValueQuantile:
  "(column_name \<noteq> None \<or> quantile \<noteq> None \<longrightarrow>
      TestValueQuantile_init new_quantile_metric column_name quantile bounds (Some m)
      = Inl (ValueError ''Test parameters and given  metric conflict''))
   \<and> TestValueRange_init new_range_metric column left right (Some m')
      = Inr (TestValueRange column left right m')"
  by (auto simp: TestValueQuantile_init_def TestValueRange_init_def)

theorem conflict_check_only_in_TestValueQuantile_witness:
  "TestValueQuantile_init (\<lambda>column quantile. Inl TypeError) (Some ''age'') (Some 0.5) unset
     (Some (Metric (Some ''height'', Some 0.9) 180))
     = Inl (ValueError ''Test parameters and given  metric conflict'')
   \<and> TestValueRange_init (\<lambda>column left right. Inl TypeError) ''age'' (Some 0) (Some 100)
     (Some (Metric (''height'', Some 5, Some 6)
              \<lparr>number_not_in_range = 0, share_not_in_range = 0\<rparr>))
     = Inr (TestValueRange ''age'' (Some 0) (Some 100)
            (Metric (''height'', Some 5, Some 6)
               \<lparr>number_not_in_range = 0, share_not_in_range = 0\<rparr>))"
  using conflict_check_only_in_TestValueQuantile
    [of "Some ''age''" "Some 0.5" "\<lambda>column quantile. Inl TypeError" unset
        "Metric (Some ''height'', Some 0.9) 180" "\<lambda>column left right. Inl TypeError"
        "''age''" "Some 0" "Some 100"
        "Metric (''height'', Some 5, Some 6)
               \<lparr>number_not_in_range = 0, share_not_in_range = 0\<rparr>"]
  by simp

text \<open>
  C9. The constructor of TestValueQuantile, given an explicit metric, raises
  ValueError("Test parameters and given  metric conflict") whenever column_name or
  quantile is not None; it succeeds exactly when both are None, and then binds the given
  metric.
\<close>

theorem TestValueQuantile_init_explicit_metric:
  "TestValueQuantile_init new_metric column_name quantile bounds (Some m) =
     (if column_name = None \<and> quantile = None
      then Inr (TestValueQuantile None None bounds m)
      else Inl (ValueError ''Test parameters and given  metric conflict''))"
  by (auto simp: TestValueQuantile_init_def)

theorem TestValueQuantile_init_explicit_metric_witness:
  "TestValueQuantile_init (\<lambda>column quantile. Inl TypeError) (Some ''age'') None unset
     (Some (Metric (Some ''age'', Some 0.5) 30))
     = Inl (ValueError ''Test parameters and given  metric conflict'')
   \<and> TestValueQuantile_init (\<lambda>column quantile. Inl TypeError) None (Some 0.5) unset
     (Some (Metric (Some ''age'', Some 0.5) 30))
     = Inl (ValueError ''Test parameters and given  metric conflict'')
   \<and> TestValueQuantile_init (\<lambda>column quantile. Inl TypeError) None None unset
     (Some (Metric (Some ''age'', Some 0.5) 30))
     = Inr (TestValueQuantile None None unset (Metric (Some ''age'', Some 0.5) 30))"
  using TestValueQuantile_init_explicit_metric
      [of "\<lambda>column quantile. Inl TypeError" "Some ''age''" None unset
          "Metric (Some ''age'', Some 0.5) 30"]
    TestValueQuantile_init_explicit_metric
      [of "\<lambda>column quantile. Inl TypeError" None "Some 0.5" unset
          "Metric (Some ''age'', Some 0.5) 30"]
    TestValueQuantile_init_explicit_metric
      [of "\<lambda>column quantile. Inl TypeError" None None unset
          "Metric (Some ''age'', Some 0.5) 30"]
  by simp

subsection \<open>CorrelationChanges and HighlyCorrelatedFeatures\<close>

text \<open>
  C10. Against the same metric, CorrelationChanges and HighlyCorrelatedFeatures compute
  the same value under test, the abs_max_num_features_correlation of the metric result,
  and build the same description of every value.
\<close>

theorem correlation_changes_same_as_highly_correlated:
  "correlation_calculate_value_for_test (CorrelationTest CorrelationChanges method condition metric)
     = correlation_calculate_value_for_test
         (CorrelationTest HighlyCorrelatedFeatures method' condition' metric)
   \<and> correlation_calculate_value_for_test (CorrelationTest CorrelationChanges method condition metric)
     = abs_max_num_features_correlation (get_result metric)
   \<and> correlation_get_description h (CorrelationTest CorrelationChanges method condition metric) value
     = correlation_get_description h
         (CorrelationTest HighlyCorrelatedFeatures method' condition' metric') value"
  by simp

theorem correlation_changes_same_as_highly_correlated_witness:
  "correlation_calculate_value_for_test
     (CorrelationTest CorrelationChanges ''pearson'' unset
        (Metric ''pearson'' \<lparr>target_prediction_correlation = Some 0.2,
                              abs_max_num_features_correlation = Some 0.9\<rparr>))
   = correlation_calculate_value_for_test
     (CorrelationTest HighlyCorrelatedFeatures ''pearson'' unset
        (Metric ''pearson'' \<lparr>target_prediction_correlation = Some 0.2,
                              abs_max_num_features_correlation = Some 0.9\<rparr>))"
  using correlation_changes_same_as_highly_correlated
    [of "''pearson''" unset
        "Metric ''pearson'' \<lparr>target_prediction_correlation = Some 0.2,
                              abs_max_num_features_correlation = Some 0.9\<rparr>"
        "''pearson''" unset]
  by blast

end
